theory Spec2Isabelle
  imports Complex_Main "HOL-Library.Multiset"
begin

section \<open>Region post-processing of \<open>scripts/sam_split_png.py\<close>\<close>

text \<open>
  The development embeds the bounding-box pipeline of the class
  \<open>ImprovedSAMDrawingSplitter\<close>. Python integers are \<^typ>\<open>int\<close>. A Python float is
  the real number it denotes. Where the outcome of a comparison depends on the rounding of
  double arithmetic (the sort key of the Deduplicator, the zone tests and checks of the
  EngineeringFilter and of the TextRegionRefiner), every float operation is followed by the
  rounding \<open>fl\<close> to the nearest double; elsewhere a quotient or product is the exact
  value. A division by zero raises \<open>ZeroDivisionError\<close> in Python and is a value of the
  error type here.
\<close>

subsection \<open>Data model\<close>

datatype error = ZeroDivisionError

text \<open>A bounding box is the list \<open>[x, y, w, h]\<close>, always unpacked into four names.\<close>

type_synonym bbox = "int \<times> int \<times> int \<times> int"

text \<open>
  A mask is a Python dictionary. The keys \<open>bbox\<close>, \<open>area\<close>, \<open>stability_score\<close> and
  \<open>predicted_iou\<close> are always present. The boolean keys are only ever stored as \<open>True\<close>
  and only ever read through \<open>mask.get(key, False)\<close>, so an absent key is the field value
  \<open>False\<close>; \<open>info_type\<close> is read through \<open>mask.get('info_type', [])\<close>, so an absent key is
  the empty list; \<open>original_count\<close> and \<open>priority_boost\<close> are optional.
\<close>

record region =
  bbox :: bbox
  area :: int
  stability_score :: real
  predicted_iou :: real
  is_info_region :: bool
  info_type :: "string list"
  is_protected :: bool
  is_merged :: bool
  original_count :: "nat option"
  is_bottom_protected :: bool
  is_protected_text :: bool
  priority_boost :: "real option"
  text_optimized :: bool

text \<open>The record the segmentation oracle delivers: the four mandatory keys and no flag.\<close>

definition oracle_mask :: "bbox \<Rightarrow> int \<Rightarrow> real \<Rightarrow> real \<Rightarrow> region" where
  "oracle_mask b a s p =
     \<lparr>bbox = b, area = a, stability_score = s, predicted_iou = p,
      is_info_region = False, info_type = [], is_protected = False, is_merged = False,
      original_count = None, is_bottom_protected = False, is_protected_text = False,
      priority_boost = None, text_optimized = False\<rparr>"

text \<open>\<open>int(f)\<close> on a float: truncation towards zero.\<close>

definition py_int :: "real \<Rightarrow> int" where
  "py_int f = (if 0 \<le> f then \<lfloor>f\<rfloor> else \<lceil>f\<rceil>)"

subsection \<open>Double arithmetic\<close>

text \<open>
  Rounding to the nearest double, ties to the even significand, for the normal range of
  binary64 (53 significant bits; overflow and subnormal numbers are not modelled).
  \<open>binade x\<close> is the exponent \<open>e\<close> with \<open>2^e \<le> |x| < 2^(e+1)\<close>, found by halving or
  doubling; \<open>fl x\<close> is the multiple of \<open>2^(e-52)\<close> nearest to \<open>x\<close>.
\<close>

definition pow2 :: "int \<Rightarrow> real" where
  "pow2 k = (if 0 \<le> k then 2 ^ nat k else 1 / 2 ^ nat (- k))"

definition round_half_even :: "real \<Rightarrow> int" where
  "round_half_even x =
     (let f = \<lfloor>x\<rfloor>; r = x - real_of_int f
      in if r < 1 / 2 then f
         else if 1 / 2 < r then f + 1
         else if even f then f else f + 1)"

fun binade_search :: "nat \<Rightarrow> real \<Rightarrow> int" where
  "binade_search 0 x = 0"
| "binade_search (Suc n) x =
     (if 2 \<le> x then binade_search n (x / 2) + 1
      else if x < 1 then binade_search n (x * 2) - 1
      else 0)"

definition binade :: "real \<Rightarrow> int" where
  "binade x = binade_search 2200 \<bar>x\<bar>"

definition fl :: "real \<Rightarrow> real" where
  "fl x = (if x = 0 then 0
           else let q = pow2 (binade x - 52)
                in real_of_int (round_half_even (x / q)) * q)"

text \<open>
  The conversion of an integer operand to a float, and the true division \<open>a / b\<close> of two
  integers, which Python rounds once from the exact quotient. A float literal \<open>0.7\<close> is
  \<open>fl 0.7\<close>; a product or quotient with a float operand is \<open>fl\<close> of the exact result on
  the converted operands.
\<close>

definition py_float :: "int \<Rightarrow> real" where
  "py_float n = fl (real_of_int n)"

definition int_truediv :: "int \<Rightarrow> int \<Rightarrow> real" where
  "int_truediv a b = fl (real_of_int a / real_of_int b)"

subsection \<open>GeometryOps\<close>

text \<open>\<open>calculate_overlap\<close>: intersection over union, guarded by \<open>union > 0\<close>.\<close>

fun calculate_overlap :: "bbox \<Rightarrow> bbox \<Rightarrow> real" where
  "calculate_overlap (x1, y1, w1, h1) (x2, y2, w2, h2) =
     (let x_left = max x1 x2;
          y_top = max y1 y2;
          x_right = min (x1 + w1) (x2 + w2);
          y_bottom = min (y1 + h1) (y2 + h2)
      in if x_right < x_left \<or> y_bottom < y_top then 0
         else
           let intersection = (x_right - x_left) * (y_bottom - y_top);
               area1 = w1 * h1;
               area2 = w2 * h2;
               union = area1 + area2 - intersection
           in if union > 0 then real_of_int intersection / real_of_int union else 0)"

text \<open>
  \<open>is_bbox_inside\<close>: the share of \<open>bbox1\<close> that lies in \<open>bbox2\<close>, compared with the
  threshold. The quotient \<open>intersection / area1\<close> is not guarded: with \<open>area1 = 0\<close> it
  raises.
\<close>

fun is_bbox_inside :: "bbox \<Rightarrow> bbox \<Rightarrow> real \<Rightarrow> error + bool" where
  "is_bbox_inside (x1, y1, w1, h1) (x2, y2, w2, h2) threshold =
     (let x_left = max x1 x2;
          y_top = max y1 y2;
          x_right = min (x1 + w1) (x2 + w2);
          y_bottom = min (y1 + h1) (y2 + h2)
      in if x_right < x_left \<or> y_bottom < y_top then Inr False
         else
           let intersection = (x_right - x_left) * (y_bottom - y_top);
               area1 = w1 * h1
           in if area1 = 0 then Inl ZeroDivisionError
              else Inr (real_of_int intersection / real_of_int area1 > threshold))"

text \<open>The call \<open>self.is_bbox_inside(bbox1, bbox2)\<close> with the default \<open>threshold=0.8\<close>.\<close>

definition is_bbox_inside_default :: "bbox \<Rightarrow> bbox \<Rightarrow> error + bool" where
  "is_bbox_inside_default bbox1 bbox2 = is_bbox_inside bbox1 bbox2 0.8"

text \<open>
  Two boxes intersect when they share a pixel, a box \<open>(x, y, w, h)\<close> covering the pixels
  \<open>(px, py)\<close> with \<open>x \<le> px < x + w\<close> and \<open>y \<le> py < y + h\<close>.
\<close>

definition pixels :: "bbox \<Rightarrow> (int \<times> int) set" where
  "pixels b = (case b of (x, y, w, h) \<Rightarrow> {x ..< x + w} \<times> {y ..< y + h})"

definition boxes_intersect :: "bbox \<Rightarrow> bbox \<Rightarrow> bool" where
  "boxes_intersect a b =
     (case a of (x1, y1, w1, h1) \<Rightarrow> case b of (x2, y2, w2, h2) \<Rightarrow>
        max x1 x2 < min (x1 + w1) (x2 + w2) \<and> max y1 y2 < min (y1 + h1) (y2 + h2))"

text \<open>The closed rectangles are apart: the early exit of both geometric tests.\<close>

definition boxes_apart :: "bbox \<Rightarrow> bbox \<Rightarrow> bool" where
  "boxes_apart a b =
     (case a of (x1, y1, w1, h1) \<Rightarrow> case b of (x2, y2, w2, h2) \<Rightarrow>
        min (x1 + w1) (x2 + w2) < max x1 x2 \<or> min (y1 + h1) (y2 + h2) < max y1 y2)"

definition positive_box :: "bbox \<Rightarrow> bool" where
  "positive_box b = (case b of (x, y, w, h) \<Rightarrow> 0 < w \<and> 0 < h)"


definition box_area :: "bbox \<Rightarrow> int" where
  "box_area b = (case b of (x, y, w, h) \<Rightarrow> w * h)"

subsection \<open>Deduplicator\<close>

text \<open>
  The sort key of \<open>remove_duplicate_masks\<close>: \<open>x['area'] * x['stability_score']\<close>, the
  double product of the integer area and the float score.
\<close>

definition quality :: "region \<Rightarrow> real" where
  "quality x = fl (py_float (area x) * stability_score x)"

text \<open>
  \<open>sorted(masks, key=..., reverse=True)\<close> is a stable sort into descending key order:
  elements with equal keys keep their input order. \<^const>\<open>sort_key\<close> on the negated key
  is the same stable sort.
\<close>

definition masks_sorted :: "region list \<Rightarrow> region list" where
  "masks_sorted masks = sort_key (\<lambda>x. - quality x) masks"

text \<open>
  The inner loop \<open>for kept_mask in filtered_masks\<close>. The third argument is the whole list
  \<open>filtered_masks\<close>, the fourth the part of it still to visit. Both containment tests are
  evaluated before the branch, so either may raise. The result is the list (after a
  possible \<open>filtered_masks.remove(kept_mask)\<close>, which deletes the first equal element)
  and the flag \<open>should_keep\<close>.
\<close>

fun compare_with_kept ::
  "real \<Rightarrow> region \<Rightarrow> region list \<Rightarrow> region list \<Rightarrow> error + (region list \<times> bool)" where
  "compare_with_kept overlap_threshold current_mask filtered_masks [] =
     Inr (filtered_masks, True)"
| "compare_with_kept overlap_threshold current_mask filtered_masks (kept_mask # rest) =
     (let overlap = calculate_overlap (bbox current_mask) (bbox kept_mask)
      in case is_bbox_inside_default (bbox current_mask) (bbox kept_mask) of
           Inl e \<Rightarrow> Inl e
         | Inr current_inside_kept \<Rightarrow>
             (case is_bbox_inside_default (bbox kept_mask) (bbox current_mask) of
                Inl e \<Rightarrow> Inl e
              | Inr kept_inside_current \<Rightarrow>
                  if overlap > overlap_threshold \<or> current_inside_kept
                  then Inr (filtered_masks, False)
                  else if kept_inside_current
                  then Inr (remove1 kept_mask filtered_masks, True)
                  else compare_with_kept overlap_threshold current_mask filtered_masks rest))"

text \<open>The outer loop \<open>for current_mask in masks_sorted\<close>.\<close>

fun dedup_loop :: "real \<Rightarrow> region list \<Rightarrow> region list \<Rightarrow> error + region list" where
  "dedup_loop overlap_threshold filtered_masks [] = Inr filtered_masks"
| "dedup_loop overlap_threshold filtered_masks (current_mask # rest) =
     (case compare_with_kept overlap_threshold current_mask filtered_masks filtered_masks of
        Inl e \<Rightarrow> Inl e
      | Inr (kept, should_keep) \<Rightarrow>
          dedup_loop overlap_threshold
            (if should_keep then kept @ [current_mask] else kept) rest)"

definition remove_duplicate_masks :: "region list \<Rightarrow> real \<Rightarrow> error + region list" where
  "remove_duplicate_masks masks overlap_threshold =
     (if masks = [] then Inr []
      else dedup_loop overlap_threshold [] (masks_sorted masks))"

text \<open>
  The three pairwise tests of the inner loop as predicates on regions; on boxes of
  positive width and height \<open>is_bbox_inside\<close> does not raise and \<open>region_inside\<close> is its value.
\<close>

definition region_inside :: "region \<Rightarrow> region \<Rightarrow> bool" where
  "region_inside a b = (is_bbox_inside_default (bbox a) (bbox b) = Inr True)"

definition overlaps :: "real \<Rightarrow> region \<Rightarrow> region \<Rightarrow> bool" where
  "overlaps thr a b = (calculate_overlap (bbox a) (bbox b) > thr)"

definition rejects :: "real \<Rightarrow> region \<Rightarrow> region \<Rightarrow> bool" where
  "rejects thr cand k = (overlaps thr cand k \<or> region_inside cand k)"

definition decides :: "real \<Rightarrow> region \<Rightarrow> region \<Rightarrow> bool" where
  "decides thr cand k = (rejects thr cand k \<or> region_inside k cand)"

text \<open>
  One greedy step, decided by the first accepted region (in acceptance order) for which
  one of the three tests fires.
\<close>

definition dedup_step :: "real \<Rightarrow> region list \<Rightarrow> region \<Rightarrow> region list" where
  "dedup_step thr accepted cand =
     (case find (decides thr cand) accepted of
        None \<Rightarrow> accepted @ [cand]
      | Some k \<Rightarrow> if rejects thr cand k then accepted else remove1 k accepted @ [cand])"



definition positive_boxes :: "region list \<Rightarrow> bool" where
  "positive_boxes rs = list_all (\<lambda>m. positive_box (bbox m)) rs"




text \<open>Two shifted copies of one view and a view far away from both.\<close>

definition first_view :: region where
  "first_view = oracle_mask (0, 0, 200, 200) 40000 0.9375 0.875"


definition far_view :: region where
  "far_view = oracle_mask (500, 500, 100, 100) 10000 0.875 0.875"



subsection \<open>ImportanceRanker\<close>





subsection \<open>EngineeringFilter\<close>

text \<open>\<open>np.pi\<close> is the double nearest to \<open>3.141592653589793\<close>.\<close>

definition np_pi :: real where
  "np_pi = fl 3.141592653589793"

text \<open>
  The float expressions of the filter, each a double computation on integer operands:
  \<open>int(h * 0.8)\<close>, \<open>h * 0.7\<close> (also \<open>w * 0.7\<close>), \<open>total_area * 0.05\<close> and
  \<open>4 * np.pi * area / (perimeter * perimeter)\<close>, evaluated from left to right.
\<close>

definition bottom_protect_row :: "int \<Rightarrow> int" where
  "bottom_protect_row h = py_int (fl (py_float h * fl 0.8))"

definition info_band_start :: "int \<Rightarrow> real" where
  "info_band_start n = fl (py_float n * fl 0.7)"

definition edge_area_limit :: "int \<Rightarrow> real" where
  "edge_area_limit total_area = fl (py_float total_area * fl 0.05)"

definition compactness_of :: "int \<Rightarrow> int \<Rightarrow> real" where
  "compactness_of a perimeter =
     fl (fl (fl (py_float 4 * np_pi) * py_float a) / py_float (perimeter * perimeter))"

text \<open>
  The body of the loop of \<open>filter_masks_by_engineering_criteria\<close> for one mask, for an
  image of height \<open>h\<close> and width \<open>w\<close>: \<open>None\<close> is a \<open>continue\<close>, \<open>Some\<close> the mask appended
  with its tags. \<open>area / total_area\<close> raises on an image without pixels. An integer is
  compared with a float by value.
\<close>

definition filter_mask :: "int \<Rightarrow> int \<Rightarrow> region \<Rightarrow> error + region option" where
  "filter_mask h w msk =
     (let total_area = h * w;
          bottom_protect_y = bottom_protect_row h;
          a = area msk
      in case bbox msk of (x, y, width, height) \<Rightarrow>
        let is_in_bottom_protect = y > bottom_protect_y;
            in_bottom_info = real_of_int y > info_band_start h;
            in_right_info = real_of_int x > info_band_start w;
            is_info = in_bottom_info \<or> in_right_info
        in if total_area = 0 then Inl ZeroDivisionError
           else
             let area_ratio = int_truediv a total_area;
                 min_area_ratio = (if is_in_bottom_protect then fl 0.008
                                   else if is_info then fl 0.002 else fl 0.003);
                 max_area_ratio = (if is_in_bottom_protect then fl 0.5
                                   else if is_info then fl 0.3 else fl 0.7)
             in if \<not> (min_area_ratio \<le> area_ratio \<and> area_ratio \<le> max_area_ratio)
                then Inr None
                else
                  let aspect_ratio = int_truediv (max width height) (max (min width height) 1);
                      max_aspect_ratio = (if is_in_bottom_protect then 8
                                          else if is_info then 25 else 15)
                  in if aspect_ratio > max_aspect_ratio then Inr None
                     else
                       let perimeter = 2 * (width + height);
                           min_compactness = (if is_in_bottom_protect then fl 0.1
                                              else if is_info then fl 0.02 else fl 0.05)
                       in if perimeter > 0 \<and> compactness_of a perimeter < min_compactness
                          then Inr None
                          else if ((x < 10 \<and> \<not> is_info) \<or> y < 10) \<and>
                                  real_of_int a < edge_area_limit total_area
                          then Inr None
                          else if is_in_bottom_protect
                          then Inr (Some (msk\<lparr>is_bottom_protected := True,
                                               priority_boost := Some (fl 1.5)\<rparr>))
                          else if is_info
                          then Inr (Some (msk\<lparr>is_protected_text := True,
                                               priority_boost := Some (fl 1.3)\<rparr>))
                          else Inr (Some msk))"

fun filter_loop :: "int \<Rightarrow> int \<Rightarrow> region list \<Rightarrow> region list \<Rightarrow> error + region list" where
  "filter_loop h w filtered_masks [] = Inr filtered_masks"
| "filter_loop h w filtered_masks (msk # rest) =
     (case filter_mask h w msk of
        Inl e \<Rightarrow> Inl e
      | Inr None \<Rightarrow> filter_loop h w filtered_masks rest
      | Inr (Some tagged) \<Rightarrow> filter_loop h w (filtered_masks @ [tagged]) rest)"

definition filter_masks_by_engineering_criteria ::
  "region list \<Rightarrow> int \<Rightarrow> int \<Rightarrow> error + region list" where
  "filter_masks_by_engineering_criteria masks h w = filter_loop h w [] masks"

text \<open>
  The zone the filter puts a box in (by the position of its corner, against the double
  products the code computes), and the three checks before the margin test, each with
  the bounds of its zone.
\<close>

definition in_bottom_protect :: "int \<Rightarrow> region \<Rightarrow> bool" where
  "in_bottom_protect h msk = (case bbox msk of (x, y, width, height) \<Rightarrow>
     y > bottom_protect_row h)"

definition in_info_band :: "int \<Rightarrow> int \<Rightarrow> region \<Rightarrow> bool" where
  "in_info_band h w msk = (case bbox msk of (x, y, width, height) \<Rightarrow>
     real_of_int y > info_band_start h \<or> real_of_int x > info_band_start w)"

definition passes_area_ratio :: "int \<Rightarrow> int \<Rightarrow> region \<Rightarrow> bool" where
  "passes_area_ratio h w msk =
     ((if in_bottom_protect h msk then fl 0.008
       else if in_info_band h w msk then fl 0.002 else fl 0.003)
        \<le> int_truediv (area msk) (h * w)
      \<and> int_truediv (area msk) (h * w)
        \<le> (if in_bottom_protect h msk then fl 0.5
            else if in_info_band h w msk then fl 0.3 else fl 0.7))"

definition passes_aspect_ratio :: "int \<Rightarrow> int \<Rightarrow> region \<Rightarrow> bool" where
  "passes_aspect_ratio h w msk = (case bbox msk of (x, y, width, height) \<Rightarrow>
     \<not> int_truediv (max width height) (max (min width height) 1)
         > (if in_bottom_protect h msk then 8 else if in_info_band h w msk then 25 else 15))"

text \<open>The compactness check is skipped when the perimeter is not positive.\<close>

definition passes_compactness :: "int \<Rightarrow> int \<Rightarrow> region \<Rightarrow> bool" where
  "passes_compactness h w msk = (case bbox msk of (x, y, width, height) \<Rightarrow>
     \<not> (2 * (width + height) > 0 \<and>
        compactness_of (area msk) (2 * (width + height))
        < (if in_bottom_protect h msk then fl 0.1
           else if in_info_band h w msk then fl 0.02 else fl 0.05)))"

text \<open>The tags a surviving candidate receives.\<close>

definition tag_zone :: "int \<Rightarrow> int \<Rightarrow> region \<Rightarrow> region" where
  "tag_zone h w msk =
     (if in_bottom_protect h msk
      then msk\<lparr>is_bottom_protected := True, priority_boost := Some (fl 1.5)\<rparr>
      else if in_info_band h w msk
      then msk\<lparr>is_protected_text := True, priority_boost := Some (fl 1.3)\<rparr>
      else msk)"

text \<open>
  A candidate on row 455 of an image 650 high and 1000 wide: \<open>650 * 0.7\<close> is the double
  just below 455, so the row lies in the bottom info band.
\<close>

definition boundary_row_note :: region where
  "boundary_row_note = oracle_mask (5, 455, 100, 100) 10000 0.875 0.875"

text \<open>A candidate in the right band that touches the top margin, in a 1000 x 1000 image.\<close>

definition top_right_note :: region where
  "top_right_note = oracle_mask (800, 5, 100, 100) 10000 0.875 0.875"

text \<open>A candidate of the main body that touches the left margin with exactly 5% of the image.\<close>

definition left_edge_view :: region where
  "left_edge_view = oracle_mask (5, 300, 250, 250) 50000 0.875 0.875"

definition bottom_left_note :: region where
  "bottom_left_note = oracle_mask (5, 750, 100, 100) 10000 0.875 0.875"

definition tiny_corner_blob :: region where
  "tiny_corner_blob = oracle_mask (5, 5, 100, 100) 10000 0.875 0.875"


subsection \<open>ProximityMerger\<close>

text \<open>The entries \<open>mask['bbox'][0]\<close> to \<open>mask['bbox'][3]\<close>.\<close>

definition bbox0 :: "region \<Rightarrow> int" where
  "bbox0 m = (case bbox m of (x, y, w, h) \<Rightarrow> x)"

definition bbox1 :: "region \<Rightarrow> int" where
  "bbox1 m = (case bbox m of (x, y, w, h) \<Rightarrow> y)"

definition bbox2 :: "region \<Rightarrow> int" where
  "bbox2 m = (case bbox m of (x, y, w, h) \<Rightarrow> w)"

definition bbox3 :: "region \<Rightarrow> int" where
  "bbox3 m = (case bbox m of (x, y, w, h) \<Rightarrow> h)"

text \<open>
  \<open>merge_mask_cluster\<close>: the returned dictionary has the four keys \<open>bbox\<close>, \<open>area\<close>,
  \<open>stability_score\<close> and \<open>predicted_iou\<close> and no other.
\<close>

definition merge_mask_cluster :: "region list \<Rightarrow> region option" where
  "merge_mask_cluster cluster_masks =
     (if cluster_masks = [] then None
      else
        let min_x = Min (set (map bbox0 cluster_masks));
            min_y = Min (set (map bbox1 cluster_masks));
            max_x = Max (set (map (\<lambda>m. bbox0 m + bbox2 m) cluster_masks));
            max_y = Max (set (map (\<lambda>m. bbox1 m + bbox3 m) cluster_masks));
            merged_bbox = (min_x, min_y, max_x - min_x, max_y - min_y);
            total_area = sum_list (map area cluster_masks);
            avg_stability = sum_list (map stability_score cluster_masks)
                              / real (length cluster_masks);
            avg_iou = sum_list (map predicted_iou cluster_masks)
                        / real (length cluster_masks)
        in Some (oracle_mask merged_bbox total_area avg_stability avg_iou))"

text \<open>The centre of a box, \<open>[bbox[0] + bbox[2] / 2, bbox[1] + bbox[3] / 2]\<close>.\<close>

definition center :: "region \<Rightarrow> real \<times> real" where
  "center m = (case bbox m of (x, y, w, h) \<Rightarrow>
     (real_of_int x + real_of_int w / 2, real_of_int y + real_of_int h / 2))"

text \<open>
  \<open>merge_nearby_masks\<close>. The clustering \<open>DBSCAN(eps, min_samples=1).fit(centers).labels_\<close>
  belongs to scikit-learn and is the parameter \<open>dbscan\<close>: it maps the radius and the
  centres to one label for each centre. The loop visits the distinct labels (in ascending
  order here) and collects for each the masks that carry it.
\<close>

definition cluster_members :: "region list \<Rightarrow> int list \<Rightarrow> int \<Rightarrow> region list" where
  "cluster_members masks labels cluster_id =
     map fst (filter (\<lambda>(m, label). label = cluster_id) (zip masks labels))"

definition merge_nearby_masks ::
  "(real \<Rightarrow> (real \<times> real) list \<Rightarrow> int list) \<Rightarrow> region list \<Rightarrow> real \<Rightarrow> region list" where
  "merge_nearby_masks dbscan masks distance_threshold =
     (if length masks < 2 then masks
      else
        let centers = map center masks;
            labels = dbscan distance_threshold centers
        in concat (map (\<lambda>cluster_id.
             let cluster_masks = cluster_members masks labels cluster_id
             in if length cluster_masks = 1 then [hd cluster_masks]
                else (case merge_mask_cluster cluster_masks of
                        None \<Rightarrow> []
                      | Some merged_mask \<Rightarrow> [merged_mask]))
             (sort (remdups labels))))"

text \<open>The box \<open>outer\<close> covers the box \<open>inner\<close>.\<close>

definition covers :: "bbox \<Rightarrow> bbox \<Rightarrow> bool" where
  "covers outer inner =
     (case outer of (X, Y, W, H) \<Rightarrow> case inner of (x, y, w, h) \<Rightarrow>
        X \<le> x \<and> Y \<le> y \<and> x + w \<le> X + W \<and> y + h \<le> Y + H)"

text \<open>Two fragments 30 pixels apart and a clustering that puts all centres in one cluster.\<close>

definition left_fragment :: region where
  "left_fragment = (oracle_mask (100, 100, 20, 20) 300 0.875 0.75)\<lparr>is_bottom_protected := True\<rparr>"

definition right_fragment :: region where
  "right_fragment = oracle_mask (130, 110, 20, 30) 500 0.625 0.875"

definition one_cluster :: "real \<Rightarrow> (real \<times> real) list \<Rightarrow> int list" where
  "one_cluster eps centers = map (\<lambda>c. 0) centers"

subsection \<open>InfoRegionDetector\<close>

definition merge_bottom_info_regions :: "region list \<Rightarrow> int \<Rightarrow> int \<Rightarrow> region option" where
  "merge_bottom_info_regions bottom_masks image_width image_height =
     (if bottom_masks = [] then None
      else
        let all_x = concat (map (\<lambda>m. case bbox m of (x, y, w, h) \<Rightarrow> [x, x + w]) bottom_masks);
            all_y = concat (map (\<lambda>m. case bbox m of (x, y, w, h) \<Rightarrow> [y, y + h]) bottom_masks);
            total_area = sum_list (map area bottom_masks);
            total_stability = sum_list (map stability_score bottom_masks);
            min_x = max 0 (Min (set all_x) - 20);
            max_x = min image_width (Max (set all_x) + 20);
            min_y = max 0 (Min (set all_y) - 10);
            max_y = image_height
        in Some \<lparr>bbox = (min_x, min_y, max_x - min_x, max_y - min_y),
                  area = total_area,
                  stability_score = total_stability / real (length bottom_masks),
                  predicted_iou = 0.9,
                  is_info_region = False, info_type = [], is_protected = False,
                  is_merged = True, original_count = Some (length bottom_masks),
                  is_bottom_protected = False, is_protected_text = False,
                  priority_boost = None, text_optimized = False\<rparr>)"

definition create_bottom_info_region :: "int \<Rightarrow> int \<Rightarrow> region" where
  "create_bottom_info_region h w =
     (let bottom_start_y = py_int (real_of_int h * 0.8)
      in \<lparr>bbox = (0, bottom_start_y, w, h - bottom_start_y),
           area = w * (h - bottom_start_y),
           stability_score = 0.95,
           predicted_iou = 0.95,
           is_info_region = True,
           info_type = [''bottom_info'', ''protected_region''],
           is_protected = True,
           is_merged = False, original_count = None,
           is_bottom_protected = False, is_protected_text = False,
           priority_boost = None, text_optimized = False\<rparr>)"

text \<open>The list the first loop of \<open>detect_info_regions\<close> appends a mask to.\<close>

datatype zone = Bottom | Right | Other

definition detect_zone :: "int \<Rightarrow> int \<Rightarrow> region \<Rightarrow> zone" where
  "detect_zone height width msk =
     (let bottom_region_y = py_int (real_of_int height * 0.75);
          right_region_x = py_int (real_of_int width * 0.75)
      in case bbox msk of (x, y, w, h) \<Rightarrow>
        let center_y = real_of_int y + real_of_int h / 2;
            center_x = real_of_int x + real_of_int w / 2;
            is_bottom_info = center_y > real_of_int bottom_region_y;
            is_right_info = center_x > real_of_int right_region_x;
            total_area = height * width;
            area_ratio = real_of_int (area msk) / real_of_int total_area;
            is_reasonable_size = 0.002 < area_ratio \<and> area_ratio < 0.3
        in if is_bottom_info \<and> is_reasonable_size then Bottom
           else if is_right_info \<and> is_reasonable_size then Right
           else Other)"

text \<open>
  \<open>detect_info_regions\<close>. The first loop divides by \<open>height * width\<close> for every mask, so
  it raises on a non-empty list when the image has no pixel. The merged bottom region is
  a non-empty dictionary, so \<open>if merged_bottom\<close> holds whenever \<open>bottom_masks\<close> is not
  empty.
\<close>

definition detect_info_regions :: "int \<Rightarrow> int \<Rightarrow> region list \<Rightarrow> error + region list" where
  "detect_info_regions height width masks =
     (if masks \<noteq> [] \<and> height * width = 0 then Inl ZeroDivisionError
      else
        let bottom_masks = filter (\<lambda>m. detect_zone height width m = Bottom) masks;
            right_masks = filter (\<lambda>m. detect_zone height width m = Right) masks;
            other_masks = filter (\<lambda>m. detect_zone height width m = Other) masks;
            merged = (case merge_bottom_info_regions bottom_masks width height of
                        None \<Rightarrow> []
                      | Some merged_bottom \<Rightarrow>
                          [merged_bottom\<lparr>is_info_region := True,
                             info_type := [''bottom_info'', ''merged_region'']\<rparr>])
        in Inr (merged
                @ map (\<lambda>m. m\<lparr>is_info_region := True, info_type := [''right_info'']\<rparr>)
                    right_masks
                @ filter (\<lambda>m. \<not> is_info_region m) other_masks))"


subsection \<open>RegionExpander\<close>

text \<open>The body of the loop of \<open>expand_info_regions\<close> for one mask.\<close>

definition expand_mask :: "int \<Rightarrow> int \<Rightarrow> region \<Rightarrow> region" where
  "expand_mask height width msk =
     (if \<not> is_info_region msk then msk
      else case bbox msk of (x, y, w, h) \<Rightarrow>
        if ''merged_region'' \<in> set (info_type msk) then
          let expand_x = max 10 (py_int (real_of_int w * 0.05));
              expand_y = max 5 (py_int (real_of_int h * 0.02));
              new_x = max 0 (x - expand_x);
              new_y = max 0 (y - expand_y);
              new_w = min (width - new_x) (w + 2 * expand_x);
              new_h = min (height - new_y) (h + expand_y)
          in msk\<lparr>bbox := (new_x, new_y, new_w, new_h), area := new_w * new_h\<rparr>
        else
          let expand_ratio = 0.15;
              expand_x = (if ''bottom_info'' \<in> set (info_type msk)
                          then py_int (real_of_int w * 0.25)
                          else py_int (real_of_int w * expand_ratio));
              expand_y = (if ''bottom_info'' \<in> set (info_type msk)
                          then py_int (real_of_int h * 0.2)
                          else py_int (real_of_int h * expand_ratio));
              new_x = max 0 (x - expand_x);
              new_y = max 0 (y - expand_y);
              new_w = min (width - new_x) (w + 2 * expand_x);
              new_h = min (height - new_y) (h + 2 * expand_y)
          in msk\<lparr>bbox := (new_x, new_y, new_w, new_h), area := new_w * new_h\<rparr>)"

definition expand_info_regions :: "int \<Rightarrow> int \<Rightarrow> region list \<Rightarrow> region list" where
  "expand_info_regions height width info_masks = map (expand_mask height width) info_masks"

text \<open>A box within an image of the given height and width.\<close>

definition within_image :: "int \<Rightarrow> int \<Rightarrow> bbox \<Rightarrow> bool" where
  "within_image height width b =
     (case b of (x, y, w, h) \<Rightarrow> 0 \<le> x \<and> 0 \<le> y \<and> x + w \<le> width \<and> y + h \<le> height)"

definition right_note :: region where
  "right_note = (oracle_mask (900, 100, 150, 200) 30000 0.875 0.875)
                  \<lparr>is_info_region := True, info_type := [''right_info'']\<rparr>"

definition overhanging_view :: region where
  "overhanging_view = oracle_mask (995, 0, 10, 10) 100 0.875 0.875"

subsection \<open>TextRegionRefiner\<close>


definition expand_25 :: "int \<Rightarrow> int" where
  "expand_25 n = py_int (fl (py_float n * fl 0.25))"






subsection \<open>Zone flags\<close>



subsection \<open>PipelineOrchestrator\<close>

text \<open>
  \<open>split_image\<close> from the collected proposals \<open>all_masks\<close> (already in the coordinates of
  the original image of height \<open>h\<close> and width \<open>w\<close>) to the point where the protected region
  has been appended to \<open>info_masks\<close>. \<open>None\<close> is the early \<open>return []\<close> taken when no
  generator delivered a mask.
\<close>

definition split_image_info_masks ::
  "(real \<Rightarrow> (real \<times> real) list \<Rightarrow> int list) \<Rightarrow> int \<Rightarrow> int \<Rightarrow> region list
     \<Rightarrow> error + region list option" where
  "split_image_info_masks dbscan h w all_masks =
     (if all_masks = [] then Inr None
      else
        case filter_masks_by_engineering_criteria all_masks h w of
          Inl e \<Rightarrow> Inl e
        | Inr filtered_masks \<Rightarrow>
            (case remove_duplicate_masks filtered_masks 0.3 of
               Inl e \<Rightarrow> Inl e
             | Inr unique_masks \<Rightarrow>
                 let merged_masks = merge_nearby_masks dbscan unique_masks 100;
                     bottom_protection = create_bottom_info_region h w
                 in (case detect_info_regions h w merged_masks of
                       Inl e \<Rightarrow> Inl e
                     | Inr info_masks \<Rightarrow> Inr (Some (info_masks @ [bottom_protection])))))"

text \<open>A proposal as the oracle delivers it: box, area, stability score, predicted IoU.\<close>

type_synonym proposal = "bbox \<times> int \<times> real \<times> real"

definition from_oracle :: "proposal \<Rightarrow> region" where
  "from_oracle p = (case p of (b, a, s, q) \<Rightarrow> oracle_mask b a s q)"

section \<open>Verification\<close>

subsection \<open>Properties of the geometric tests\<close>

lemma boxes_intersect_pixels: "boxes_intersect a b \<longleftrightarrow> pixels a \<inter> pixels b \<noteq> {}"
proof (cases a, cases b)
  fix x1 y1 w1 h1 x2 y2 w2 h2
  assume a: "a = (x1, y1, w1, h1)" and b: "b = (x2, y2, w2, h2)"
  have "pixels a \<inter> pixels b =
      {max x1 x2 ..< min (x1 + w1) (x2 + w2)} \<times> {max y1 y2 ..< min (y1 + h1) (y2 + h2)}"
    unfolding a b pixels_def by auto
  then show ?thesis
    unfolding a b boxes_intersect_def by (auto simp: Sigma_empty_iff)
qed

lemma calculate_overlap_commute: "calculate_overlap a b = calculate_overlap b a"
proof (cases a, cases b)
  fix x1 y1 w1 h1 x2 y2 w2 h2
  assume "a = (x1, y1, w1, h1)" and "b = (x2, y2, w2, h2)"
  then show ?thesis
    by (simp add: Let_def max.commute min.commute add.commute)
qed

lemma calculate_overlap_self:
  assumes "positive_box a"
  shows "calculate_overlap a a = 1"
proof (cases a)
  case (fields x y w h)
  with assms have "0 < w" "0 < h" by (simp_all add: positive_box_def)
  then have "0 < w * h" by simp
  with \<open>0 < w\<close> \<open>0 < h\<close> show ?thesis
    unfolding fields by (simp add: Let_def)
qed

lemma calculate_overlap_not_intersect:
  assumes "\<not> boxes_intersect a b"
  shows "calculate_overlap a b = 0"
proof (cases a, cases b)
  fix x1 y1 w1 h1 x2 y2 w2 h2
  assume a: "a = (x1, y1, w1, h1)" and b: "b = (x2, y2, w2, h2)"
  let ?xl = "max x1 x2" and ?xr = "min (x1 + w1) (x2 + w2)"
  let ?yt = "max y1 y2" and ?yb = "min (y1 + h1) (y2 + h2)"
  from assms have disj: "?xr \<le> ?xl \<or> ?yb \<le> ?yt"
    unfolding a b boxes_intersect_def by auto
  show ?thesis
  proof (cases "?xr < ?xl \<or> ?yb < ?yt")
    case True
    then show ?thesis unfolding a b by (simp add: Let_def)
  next
    case False
    with disj have "?xr = ?xl \<or> ?yb = ?yt" by linarith
    then have "(?xr - ?xl) * (?yb - ?yt) = 0" by auto
    with False show ?thesis unfolding a b by (simp add: Let_def)
  qed
qed


lemma is_bbox_inside_positive:
  assumes "positive_box a"
  shows "\<exists>r. is_bbox_inside a b t = Inr r"
proof (cases a, cases b)
  fix x1 y1 w1 h1 x2 y2 w2 h2
  assume a: "a = (x1, y1, w1, h1)" and b: "b = (x2, y2, w2, h2)"
  from assms have "w1 \<noteq> 0" and "h1 \<noteq> 0" unfolding a positive_box_def by simp_all
  moreover have "\<exists>r. \<not> r" by blast
  ultimately show ?thesis unfolding a b by (simp add: Let_def)
qed

lemma is_bbox_inside_apart:
  assumes "boxes_apart a b"
  shows "is_bbox_inside a b t = Inr False"
proof (cases a, cases b)
  fix x1 y1 w1 h1 x2 y2 w2 h2
  assume a: "a = (x1, y1, w1, h1)" and b: "b = (x2, y2, w2, h2)"
  from assms show ?thesis unfolding a b boxes_apart_def by (simp add: Let_def)
qed

lemma is_bbox_inside_zero_area:
  assumes "\<not> boxes_apart a b" and "box_area a = 0"
  shows "is_bbox_inside a b t = Inl ZeroDivisionError"
proof (cases a, cases b)
  fix x1 y1 w1 h1 x2 y2 w2 h2
  assume a: "a = (x1, y1, w1, h1)" and b: "b = (x2, y2, w2, h2)"
  from assms show ?thesis
    unfolding a b boxes_apart_def box_area_def by (simp add: Let_def)
qed

text \<open>
  Claim C9 (as amended). The overlap ratio is symmetric; it is 1 on a box of positive
  width and height compared with itself; it is 0 whenever the two boxes share no pixel.
\<close>

theorem overlap_ratio_properties:
  "calculate_overlap a b = calculate_overlap b a
   \<and> (positive_box a \<longrightarrow> calculate_overlap a a = 1)
   \<and> (\<not> boxes_intersect a b \<longrightarrow> calculate_overlap a b = 0)"
  using calculate_overlap_commute calculate_overlap_self calculate_overlap_not_intersect
  by blast

theorem overlap_ratio_properties_witness:
  "calculate_overlap (0, 0, 10, 10) (20, 30, 5, 5) = calculate_overlap (20, 30, 5, 5) (0, 0, 10, 10)
   \<and> positive_box (0, 0, 10, 10) \<and> calculate_overlap (0, 0, 10, 10) (0, 0, 10, 10) = 1
   \<and> \<not> boxes_intersect (0, 0, 10, 10) (20, 30, 5, 5)
   \<and> calculate_overlap (0, 0, 10, 10) (20, 30, 5, 5) = 0"
  using overlap_ratio_properties [of "(0, 0, 10, 10)" "(20, 30, 5, 5)"]
  by (simp add: positive_box_def boxes_intersect_def)

text \<open>
  The claim as stated fails on a box of zero area: the guard \<open>union > 0\<close> makes the overlap
  ratio of the box with itself 0.
\<close>

theorem overlap_ratio_self_counterexample:
  "calculate_overlap (3, 4, 0, 5) (3, 4, 0, 5) \<noteq> 1"
  by simp

lemma is_bbox_inside_touching:
  assumes "positive_box a" and "\<not> boxes_intersect a b" and "\<not> boxes_apart a b"
  shows "is_bbox_inside a b t = Inr (t < 0)"
proof (cases a, cases b)
  fix x1 y1 w1 h1 x2 y2 w2 h2
  assume a: "a = (x1, y1, w1, h1)" and b: "b = (x2, y2, w2, h2)"
  let ?xl = "max x1 x2" and ?xr = "min (x1 + w1) (x2 + w2)"
  let ?yt = "max y1 y2" and ?yb = "min (y1 + h1) (y2 + h2)"
  from assms(1) have nz: "w1 \<noteq> 0" "h1 \<noteq> 0" unfolding a positive_box_def by simp_all
  from assms(3) have na: "\<not> (?xr < ?xl \<or> ?yb < ?yt)"
    unfolding a b boxes_apart_def by simp
  with assms(2) have "?xr = ?xl \<or> ?yb = ?yt"
    unfolding a b boxes_intersect_def by auto
  with na nz show ?thesis unfolding a b by (auto simp: Let_def)
qed

text \<open>
  Claim C10 (as amended). With a first box of positive width and height \<open>is_bbox_inside\<close>
  returns a value, and the divisor is positive. When the two boxes share no pixel, it
  returns \<open>False\<close> for every threshold that is not negative: before any division when the
  closed rectangles are apart (the early exit), and after dividing an intersection of
  area 0 when they touch, where the result is \<open>0 > threshold\<close>. Nothing guards the
  division: whenever the rectangles are not apart and the first box has zero area, the
  call raises \<open>ZeroDivisionError\<close>.
\<close>

theorem is_bbox_inside_total:
  "(positive_box a \<longrightarrow> 0 < box_area a \<and> (\<exists>r. is_bbox_inside a b t = Inr r))
   \<and> (positive_box a \<and> \<not> boxes_intersect a b \<and> 0 \<le> t \<longrightarrow> is_bbox_inside a b t = Inr False)
   \<and> (positive_box a \<and> \<not> boxes_intersect a b \<and> \<not> boxes_apart a b \<longrightarrow>
        is_bbox_inside a b t = Inr (t < 0))
   \<and> (boxes_apart a b \<longrightarrow> is_bbox_inside a b t = Inr False)
   \<and> (\<not> boxes_apart a b \<and> box_area a = 0 \<longrightarrow> is_bbox_inside a b t = Inl ZeroDivisionError)"
proof -
  have p: "positive_box a \<Longrightarrow> 0 < box_area a"
    by (cases a) (simp add: positive_box_def box_area_def)
  have f: "is_bbox_inside a b t = Inr False"
    if "positive_box a" "\<not> boxes_intersect a b" "0 \<le> t"
  proof (cases "boxes_apart a b")
    case True
    then show ?thesis by (rule is_bbox_inside_apart)
  next
    case False
    from is_bbox_inside_touching [OF that(1,2) False, of t] that(3) show ?thesis by simp
  qed
  from p f show ?thesis
    using is_bbox_inside_positive is_bbox_inside_apart is_bbox_inside_zero_area
      is_bbox_inside_touching by blast
qed

theorem is_bbox_inside_total_witness:
  "positive_box (0, 0, 10, 10) \<and> is_bbox_inside (0, 0, 10, 10) (5, 5, 10, 10) 0.8 = Inr False
   \<and> \<not> boxes_intersect (0, 0, 10, 10) (10, 0, 10, 10) \<and> \<not> boxes_apart (0, 0, 10, 10) (10, 0, 10, 10)
   \<and> is_bbox_inside (0, 0, 10, 10) (10, 0, 10, 10) 0.8 = Inr False
   \<and> boxes_apart (0, 0, 0, 5) (7, 7, 2, 2) \<and> is_bbox_inside (0, 0, 0, 5) (7, 7, 2, 2) 0.8 = Inr False
   \<and> \<not> boxes_apart (0, 0, 0, 5) (0, 0, 10, 10) \<and> box_area (0, 0, 0, 5) = 0
   \<and> is_bbox_inside (0, 0, 0, 5) (0, 0, 10, 10) 0.8 = Inl ZeroDivisionError"
  using is_bbox_inside_total [of "(0, 0, 10, 10)" "(5, 5, 10, 10)" "0.8"]
    is_bbox_inside_total [of "(0, 0, 10, 10)" "(10, 0, 10, 10)" "0.8"]
    is_bbox_inside_total [of "(0, 0, 0, 5)" "(7, 7, 2, 2)" "0.8"]
    is_bbox_inside_total [of "(0, 0, 0, 5)" "(0, 0, 10, 10)" "0.8"]
  by (simp add: positive_box_def boxes_apart_def boxes_intersect_def box_area_def)

text \<open>
  The claim as stated fails for boxes that share no pixel but touch: the call passes the
  early exit, divides, and returns \<open>0 > threshold\<close>, which holds for a negative threshold.
\<close>

theorem is_bbox_inside_touching_counterexample:
  "positive_box (0, 0, 10, 10) \<and> \<not> boxes_intersect (0, 0, 10, 10) (10, 0, 10, 10)
   \<and> is_bbox_inside (0, 0, 10, 10) (10, 0, 10, 10) (- 1) = Inr True"
  by (simp add: positive_box_def boxes_intersect_def)

subsection \<open>Sorting in descending key order\<close>



subsection \<open>Evaluating double arithmetic\<close>

lemma binade_search_numeral:
  "binade_search (numeral n) x =
     (if 2 \<le> x then binade_search (pred_numeral n) (x / 2) + 1
      else if x < 1 then binade_search (pred_numeral n) (x * 2) - 1
      else 0)"
  by (simp add: numeral_eq_Suc)

lemmas fl_eval = fl_def binade_def binade_search_numeral pow2_def round_half_even_def
  py_float_def int_truediv_def

subsection \<open>Values of the double computations on the example inputs\<close>

lemma fl_literal_1: "fl (1 / 125) = 1152921504606847 / 144115188075855872"
  by (simp add: fl_eval Let_def)

lemma fl_literal_2: "fl (1 / 2) = 1 / 2"
  by (simp add: fl_eval Let_def)

lemma fl_literal_3: "fl (1 / 500) = 1152921504606847 / 576460752303423488"
  by (simp add: fl_eval Let_def)

lemma fl_literal_4: "fl (3 / 10) = 5404319552844595 / 18014398509481984"
  by (simp add: fl_eval Let_def)

lemma fl_literal_5: "fl (3 / 1000) = 3458764513820541 / 1152921504606846976"
  by (simp add: fl_eval Let_def)

lemma fl_literal_6: "fl (7 / 10) = 3152519739159347 / 4503599627370496"
  by (simp add: fl_eval Let_def)

lemma fl_literal_7: "fl (1 / 10) = 3602879701896397 / 36028797018963968"
  by (simp add: fl_eval Let_def)

lemma fl_literal_8: "fl (1 / 50) = 5764607523034235 / 288230376151711744"
  by (simp add: fl_eval Let_def)

lemma fl_literal_9: "fl (1 / 20) = 3602879701896397 / 72057594037927936"
  by (simp add: fl_eval Let_def)

lemma fl_literal_10: "fl (13 / 10) = 5854679515581645 / 4503599627370496"
  by (simp add: fl_eval Let_def)

lemma fl_literal_11: "fl (3 / 2) = 3 / 2"
  by (simp add: fl_eval Let_def)

lemma bottom_protect_row_1000: "bottom_protect_row 1000 = 800"
  by (simp add: bottom_protect_row_def py_int_def fl_eval Let_def)

lemma info_band_start_1000: "info_band_start 1000 = 700"
  by (simp add: info_band_start_def fl_eval Let_def)

lemma bottom_protect_row_650: "bottom_protect_row 650 = 520"
  by (simp add: bottom_protect_row_def py_int_def fl_eval Let_def)

lemma info_band_start_650: "info_band_start 650 = 8004444650209279 / 17592186044416"
  by (simp add: info_band_start_def fl_eval Let_def)

lemma edge_area_limit_1000000: "edge_area_limit 1000000 = 50000"
  by (simp add: edge_area_limit_def fl_eval Let_def)

lemma edge_area_limit_650000: "edge_area_limit 650000 = 32500"
  by (simp add: edge_area_limit_def fl_eval Let_def)

lemma compactness_of_10000_400: "compactness_of 10000 400 = 884279719003555 / 1125899906842624"
  by (simp add: compactness_of_def np_pi_def fl_eval Let_def)

lemma compactness_of_50000_1000: "compactness_of 50000 1000 = 176855943800711 / 281474976710656"
  by (simp add: compactness_of_def np_pi_def fl_eval Let_def)

lemma int_truediv_10000_1000000: "int_truediv 10000 1000000 = 5764607523034235 / 576460752303423488"
  by (simp add: fl_eval Let_def)

lemma int_truediv_50000_1000000: "int_truediv 50000 1000000 = 3602879701896397 / 72057594037927936"
  by (simp add: fl_eval Let_def)

lemma int_truediv_10000_650000: "int_truediv 10000 650000 = 277144592453569 / 18014398509481984"
  by (simp add: fl_eval Let_def)

lemma int_truediv_100_100: "int_truediv 100 100 = 1"
  by (simp add: fl_eval Let_def)

lemma int_truediv_250_250: "int_truediv 250 250 = 1"
  by (simp add: fl_eval Let_def)

lemma int_truediv_200_150: "int_truediv 200 150 = 6004799503160661 / 4503599627370496"
  by (simp add: fl_eval Let_def)

lemma int_truediv_300_137: "int_truediv 300 137 = 4930948497120981 / 2251799813685248"
  by (simp add: fl_eval Let_def)

lemma expand_25_150: "expand_25 150 = 37"
  by (simp add: expand_25_def py_int_def fl_eval Let_def)

lemma expand_25_200: "expand_25 200 = 50"
  by (simp add: expand_25_def py_int_def fl_eval Let_def)

lemma expand_25_137: "expand_25 137 = 34"
  by (simp add: expand_25_def py_int_def fl_eval Let_def)

lemma expand_25_300: "expand_25 300 = 75"
  by (simp add: expand_25_def py_int_def fl_eval Let_def)

lemma int_truediv_30000_1000000: "int_truediv 30000 1000000 = 1080863910568919 / 36028797018963968"
  by (simp add: fl_eval Let_def)

lemma int_truediv_5000_1000000: "int_truediv 5000 1000000 = 5764607523034235 / 1152921504606846976"
  by (simp add: fl_eval Let_def)

lemma compactness_of_30000_700: "compactness_of 30000 700 = 1732466388251863 / 2251799813685248"
  by (simp add: compactness_of_def np_pi_def fl_eval Let_def)

lemmas float_table =
  fl_literal_1 fl_literal_2 fl_literal_3 fl_literal_4 fl_literal_5 fl_literal_6 fl_literal_7
  fl_literal_8 fl_literal_9 fl_literal_10 fl_literal_11 bottom_protect_row_1000
  info_band_start_1000 bottom_protect_row_650 info_band_start_650 edge_area_limit_1000000
  edge_area_limit_650000 compactness_of_10000_400 compactness_of_50000_1000
  int_truediv_10000_1000000 int_truediv_50000_1000000 int_truediv_10000_650000
  int_truediv_100_100 int_truediv_250_250 int_truediv_200_150 int_truediv_300_137
  expand_25_150 expand_25_200 expand_25_137 expand_25_300
  int_truediv_30000_1000000 int_truediv_5000_1000000 compactness_of_30000_700

subsection \<open>Deduplicator\<close>

lemma is_bbox_inside_default_value:
  assumes "positive_box (bbox a)"
  shows "is_bbox_inside_default (bbox a) (bbox b) = Inr (region_inside a b)"
proof -
  have "\<exists>r. is_bbox_inside_default (bbox a) (bbox b) = Inr r"
    unfolding is_bbox_inside_default_def by (rule is_bbox_inside_positive [OF assms])
  then obtain r where r: "is_bbox_inside_default (bbox a) (bbox b) = Inr r" by blast
  show ?thesis by (simp add: region_inside_def r)
qed

lemma compare_with_kept_find:
  assumes "positive_box (bbox c)" and "positive_boxes ks"
  shows "compare_with_kept thr c fm ks =
           Inr (case find (decides thr c) ks of
                  None \<Rightarrow> (fm, True)
                | Some k \<Rightarrow> if rejects thr c k then (fm, False) else (remove1 k fm, True))"
  using assms(2)
proof (induction ks)
  case Nil
  show ?case by simp
next
  case (Cons k ks)
  from Cons.prems have pk: "positive_box (bbox k)" and pks: "positive_boxes ks"
    by (simp_all add: positive_boxes_def)
  note ck = is_bbox_inside_default_value [OF assms(1), where b = k]
  note kc = is_bbox_inside_default_value [OF pk, where b = c]
  show ?case
  proof (cases "decides thr c k")
    case True
    then show ?thesis
      by (auto simp: ck kc Let_def decides_def rejects_def overlaps_def)
  next
    case False
    with Cons.IH [OF pks] show ?thesis
      by (simp add: ck kc Let_def decides_def rejects_def overlaps_def)
  qed
qed

lemma set_dedup_step: "set (dedup_step thr fm c) \<subseteq> insert c (set fm)"
  using set_remove1_subset [of _ fm]
  by (auto simp: dedup_step_def split: option.splits)

lemma positive_boxes_dedup_step:
  assumes "positive_boxes fm" and "positive_box (bbox c)"
  shows "positive_boxes (dedup_step thr fm c)"
  using assms set_dedup_step [of thr fm c]
  unfolding positive_boxes_def list_all_iff by auto

lemma dedup_loop_foldl:
  assumes "positive_boxes fm" and "positive_boxes cs"
  shows "dedup_loop thr fm cs = Inr (foldl (dedup_step thr) fm cs)"
  using assms
proof (induction cs arbitrary: fm)
  case Nil
  show ?case by simp
next
  case (Cons c cs)
  from Cons.prems have pc: "positive_box (bbox c)" and pcs: "positive_boxes cs"
    by (simp_all add: positive_boxes_def)
  have step: "dedup_loop thr fm (c # cs) = dedup_loop thr (dedup_step thr fm c) cs"
    by (simp add: compare_with_kept_find [OF pc Cons.prems(1)] dedup_step_def
          split: option.splits)
  from Cons.IH [OF positive_boxes_dedup_step [OF Cons.prems(1) pc] pcs] step
  show ?case by simp
qed

lemma positive_boxes_masks_sorted: "positive_boxes (masks_sorted ms) = positive_boxes ms"
  by (simp add: positive_boxes_def masks_sorted_def list_all_iff)

lemma remove_duplicate_masks_foldl:
  assumes "positive_boxes ms"
  shows "remove_duplicate_masks ms thr = Inr (foldl (dedup_step thr) [] (masks_sorted ms))"
proof (cases "ms = []")
  case True
  then show ?thesis by (simp add: remove_duplicate_masks_def masks_sorted_def)
next
  case False
  have "positive_boxes []" by (simp add: positive_boxes_def)
  from dedup_loop_foldl [OF this, of "masks_sorted ms" thr] assms False
  show ?thesis by (simp add: remove_duplicate_masks_def positive_boxes_masks_sorted)
qed


















subsection \<open>ImportanceRanker\<close>



subsection \<open>EngineeringFilter\<close>

text \<open>The loop body as the chain of its checks.\<close>

lemma filter_mask_checks:
  assumes "bbox m = (x, y, width, height)"
  shows "filter_mask h w m =
     (if h * w = 0 then Inl ZeroDivisionError
      else if \<not> passes_area_ratio h w m then Inr None
      else if \<not> passes_aspect_ratio h w m then Inr None
      else if \<not> passes_compactness h w m then Inr None
      else if ((x < 10 \<and> \<not> in_info_band h w m) \<or> y < 10)
              \<and> real_of_int (area m) < edge_area_limit (h * w) then Inr None
      else Inr (Some (tag_zone h w m)))"
  unfolding filter_mask_def passes_area_ratio_def passes_aspect_ratio_def
      passes_compactness_def in_bottom_protect_def in_info_band_def tag_zone_def Let_def assms
      prod.case
  by (cases "bottom_protect_row h < y";
      cases "info_band_start h < real_of_int y \<or> info_band_start w < real_of_int x";
      simp only: if_True if_False simp_thms)

lemmas note_defs = top_right_note_def left_edge_view_def bottom_left_note_def
  tiny_corner_blob_def boundary_row_note_def oracle_mask_def
lemmas check_defs = passes_area_ratio_def passes_aspect_ratio_def passes_compactness_def
  in_bottom_protect_def in_info_band_def float_table

text \<open>
  Claim C8 (as amended). A candidate that passes the area-ratio, aspect-ratio and
  compactness checks is dropped by the margin test if and only if its area is below the
  double product \<open>total_area * 0.05\<close> and either \<open>y < 10\<close>, or \<open>x < 10\<close> and the candidate does
  not lie in an info band (\<open>y > h * 0.7\<close> or \<open>x > w * 0.7\<close>, against the double products);
  otherwise it is kept with the tags of its zone. So a candidate in an info band is exempt
  from the left-margin test only.
\<close>

theorem margin_exception:
  assumes "h * w \<noteq> 0"
    and "passes_area_ratio h w m" and "passes_aspect_ratio h w m"
    and "passes_compactness h w m"
    and "bbox m = (x, y, width, height)"
  shows "(filter_mask h w m = Inr None) =
           (((x < 10 \<and> \<not> in_info_band h w m) \<or> y < 10)
            \<and> real_of_int (area m) < edge_area_limit (h * w))
         \<and> (filter_mask h w m = Inr None \<or> filter_mask h w m = Inr (Some (tag_zone h w m)))"
  using assms(1-4) by (simp add: filter_mask_checks [OF assms(5)])

theorem margin_exception_witness:
  "passes_area_ratio 1000 1000 tiny_corner_blob \<and> passes_aspect_ratio 1000 1000 tiny_corner_blob
   \<and> passes_compactness 1000 1000 tiny_corner_blob
   \<and> filter_mask 1000 1000 tiny_corner_blob = Inr None
   \<and> passes_area_ratio 1000 1000 bottom_left_note \<and> passes_aspect_ratio 1000 1000 bottom_left_note
   \<and> passes_compactness 1000 1000 bottom_left_note \<and> in_info_band 1000 1000 bottom_left_note
   \<and> filter_mask 1000 1000 bottom_left_note
       = Inr (Some (bottom_left_note\<lparr>is_protected_text := True,
                                      priority_boost := Some (fl 1.3)\<rparr>))
   \<and> passes_area_ratio 650 1000 boundary_row_note \<and> passes_aspect_ratio 650 1000 boundary_row_note
   \<and> passes_compactness 650 1000 boundary_row_note \<and> in_info_band 650 1000 boundary_row_note
   \<and> filter_mask 650 1000 boundary_row_note
       = Inr (Some (boundary_row_note\<lparr>is_protected_text := True,
                                       priority_boost := Some (fl 1.3)\<rparr>))"
proof -
  have t: "passes_area_ratio 1000 1000 tiny_corner_blob"
    "passes_aspect_ratio 1000 1000 tiny_corner_blob"
    "passes_compactness 1000 1000 tiny_corner_blob"
    "bbox tiny_corner_blob = (5, 5, 100, 100)"
    by (simp_all add: check_defs note_defs)
  have b: "passes_area_ratio 1000 1000 bottom_left_note"
    "passes_aspect_ratio 1000 1000 bottom_left_note"
    "passes_compactness 1000 1000 bottom_left_note"
    "bbox bottom_left_note = (5, 750, 100, 100)"
    by (simp_all add: check_defs note_defs)
  have r: "passes_area_ratio 650 1000 boundary_row_note"
    "passes_aspect_ratio 650 1000 boundary_row_note"
    "passes_compactness 650 1000 boundary_row_note"
    "bbox boundary_row_note = (5, 455, 100, 100)"
    by (simp_all add: check_defs note_defs)
  have i: "in_info_band 1000 1000 bottom_left_note" "in_info_band 650 1000 boundary_row_note"
    and z: "tag_zone 1000 1000 bottom_left_note
              = bottom_left_note\<lparr>is_protected_text := True, priority_boost := Some (fl 1.3)\<rparr>"
      "tag_zone 650 1000 boundary_row_note
              = boundary_row_note\<lparr>is_protected_text := True, priority_boost := Some (fl 1.3)\<rparr>"
    by (simp_all add: tag_zone_def check_defs note_defs)
  have a: "real_of_int (area tiny_corner_blob) < edge_area_limit (1000 * 1000)"
    and n: "\<not> in_info_band 1000 1000 tiny_corner_blob"
    by (simp_all add: check_defs note_defs)
  have nz: "(1000::int) * 1000 \<noteq> 0" "(650::int) * 1000 \<noteq> 0" by simp_all
  from margin_exception [OF nz(1) t] a n
  have "filter_mask 1000 1000 tiny_corner_blob = Inr None" by simp
  moreover from margin_exception [OF nz(1) b] i(1) z(1)
  have "filter_mask 1000 1000 bottom_left_note
       = Inr (Some (bottom_left_note\<lparr>is_protected_text := True,
                                      priority_boost := Some (fl 1.3)\<rparr>))"
    by auto
  moreover from margin_exception [OF nz(2) r] i(2) z(2)
  have "filter_mask 650 1000 boundary_row_note
       = Inr (Some (boundary_row_note\<lparr>is_protected_text := True,
                                       priority_boost := Some (fl 1.3)\<rparr>))"
    by auto
  ultimately show ?thesis using t b r i by simp
qed

text \<open>
  The claim as stated fails twice. A candidate in the right info band that touches the top
  margin is dropped by the margin test; and a candidate of the main body that touches the
  left margin with exactly 5% of the image area is kept.
\<close>

theorem margin_exception_counterexample:
  "passes_area_ratio 1000 1000 top_right_note \<and> passes_aspect_ratio 1000 1000 top_right_note
   \<and> passes_compactness 1000 1000 top_right_note \<and> in_info_band 1000 1000 top_right_note
   \<and> filter_mask 1000 1000 top_right_note = Inr None
   \<and> passes_area_ratio 1000 1000 left_edge_view \<and> passes_aspect_ratio 1000 1000 left_edge_view
   \<and> passes_compactness 1000 1000 left_edge_view \<and> \<not> in_info_band 1000 1000 left_edge_view
   \<and> bbox left_edge_view = (5, 300, 250, 250)
   \<and> area left_edge_view * 20 = 1000 * 1000
   \<and> filter_mask 1000 1000 left_edge_view = Inr (Some left_edge_view)"
proof -
  have "passes_area_ratio 1000 1000 top_right_note" "passes_aspect_ratio 1000 1000 top_right_note"
    "passes_compactness 1000 1000 top_right_note" "in_info_band 1000 1000 top_right_note"
    "passes_area_ratio 1000 1000 left_edge_view" "passes_aspect_ratio 1000 1000 left_edge_view"
    "passes_compactness 1000 1000 left_edge_view" "\<not> in_info_band 1000 1000 left_edge_view"
    "bbox left_edge_view = (5, 300, 250, 250)"
    "area left_edge_view * 20 = 1000 * 1000"
    by (simp_all add: check_defs note_defs)
  moreover have "filter_mask 1000 1000 top_right_note = Inr None"
    by (simp add: filter_mask_def Let_def note_defs float_table)
  moreover have "filter_mask 1000 1000 left_edge_view = Inr (Some left_edge_view)"
    by (simp add: filter_mask_def Let_def note_defs float_table)
  ultimately show ?thesis by simp
qed

subsection \<open>RegionExpander\<close>

lemma clamp_fits: "new_x + min (width - new_x) e \<le> (width::int)"
  by (simp add: min_def)

lemma expand_mask_info:
  assumes "is_info_region m"
  shows "within_image height width (bbox (expand_mask height width m))"
    and "area (expand_mask height width m) = box_area (bbox (expand_mask height width m))"
proof -
  obtain x y w h where b: "bbox m = (x, y, w, h)" by (cases "bbox m")
  show "within_image height width (bbox (expand_mask height width m))"
    using assms by (simp add: expand_mask_def b Let_def within_image_def clamp_fits)
  show "area (expand_mask height width m) = box_area (bbox (expand_mask height width m))"
    using assms by (simp add: expand_mask_def b Let_def box_area_def)
qed

lemma expand_mask_other: "\<not> is_info_region m \<Longrightarrow> expand_mask height width m = m"
  by (simp add: expand_mask_def)

lemmas expand_example_defs = right_note_def overhanging_view_def first_view_def oracle_mask_def

text \<open>
  Claim C6 (as amended). The RegionExpander maps every info region to a region whose box
  lies within the image and whose area is the product of the new width and height, and
  passes every other region through unchanged. Hence all output boxes lie within the
  image whenever the boxes of the non-info input regions do.
\<close>

theorem region_expander_bounds:
  "list_all2 (\<lambda>m r. if is_info_region m
                     then within_image height width (bbox r) \<and> area r = box_area (bbox r)
                     else r = m)
     ms (expand_info_regions height width ms)
   \<and> (list_all (\<lambda>m. is_info_region m \<or> within_image height width (bbox m)) ms \<longrightarrow>
        list_all (\<lambda>r. within_image height width (bbox r)) (expand_info_regions height width ms))"
proof (intro conjI impI)
  show "list_all2 (\<lambda>m r. if is_info_region m
                     then within_image height width (bbox r) \<and> area r = box_area (bbox r)
                     else r = m)
     ms (expand_info_regions height width ms)"
    unfolding expand_info_regions_def list_all2_map2
    by (rule list_all2_refl) (simp add: expand_mask_info expand_mask_other)
next
  assume a: "list_all (\<lambda>m. is_info_region m \<or> within_image height width (bbox m)) ms"
  show "list_all (\<lambda>r. within_image height width (bbox r))
               (expand_info_regions height width ms)"
    unfolding expand_info_regions_def list_all_iff
  proof
    fix r assume "r \<in> set (map (expand_mask height width) ms)"
    then obtain m where m: "m \<in> set ms" and r: "r = expand_mask height width m" by auto
    show "within_image height width (bbox r)"
    proof (cases "is_info_region m")
      case True
      then show ?thesis unfolding r by (rule expand_mask_info(1))
    next
      case False
      with a m have "within_image height width (bbox m)" by (auto simp: list_all_iff)
      with False show ?thesis unfolding r by (simp add: expand_mask_other)
    qed
  qed
qed

theorem region_expander_bounds_witness:
  "list_all (\<lambda>m. is_info_region m \<or> within_image 1000 1000 (bbox m)) [right_note, first_view]
   \<and> expand_info_regions 1000 1000 [right_note, first_view]
       = [right_note\<lparr>bbox := (878, 70, 122, 260), area := 31720\<rparr>, first_view]
   \<and> list_all (\<lambda>r. within_image 1000 1000 (bbox r))
       (expand_info_regions 1000 1000 [right_note, first_view])"
proof -
  have e: "expand_info_regions 1000 1000 [right_note, first_view]
       = [right_note\<lparr>bbox := (878, 70, 122, 260), area := 31720\<rparr>, first_view]"
    by (simp add: expand_info_regions_def expand_mask_def Let_def py_int_def
          expand_example_defs)
  have a: "list_all (\<lambda>m. is_info_region m \<or> within_image 1000 1000 (bbox m))
             [right_note, first_view]"
    by (simp add: within_image_def expand_example_defs)
  from region_expander_bounds [of 1000 1000 "[right_note, first_view]"] a
  have "list_all (\<lambda>r. within_image 1000 1000 (bbox r))
       (expand_info_regions 1000 1000 [right_note, first_view])" by blast
  with a e show ?thesis by blast
qed

text \<open>
  The claim as stated fails: a region that is not an info region is passed through with
  the box it came with, also when that box leaves the image.
\<close>

theorem region_expander_bounds_counterexample:
  "expand_info_regions 1000 1000 [overhanging_view] = [overhanging_view]
   \<and> \<not> within_image 1000 1000 (bbox overhanging_view)"
  by (simp add: expand_info_regions_def expand_mask_def within_image_def expand_example_defs)


subsection \<open>ProximityMerger\<close>

lemma area_le_sum_list:
  assumes "list_all (\<lambda>m. 0 \<le> area m) cluster" and "m \<in> set cluster"
  shows "area m \<le> sum_list (map area cluster)"
  using assms
proof (induction cluster)
  case Nil
  then show ?case by simp
next
  case (Cons c cs)
  have "0 \<le> sum_list (map area cs)"
    using Cons.prems(1) by (auto intro!: sum_list_nonneg simp: list_all_iff)
  with Cons show ?case by (auto simp: list_all_iff)
qed

lemma covers_bbox:
  "covers (X, Y, W, H) (bbox m) \<longleftrightarrow>
     X \<le> bbox0 m \<and> Y \<le> bbox1 m \<and> bbox0 m + bbox2 m \<le> X + W \<and> bbox1 m + bbox3 m \<le> Y + H"
  by (cases "bbox m") (simp add: covers_def bbox0_def bbox1_def bbox2_def bbox3_def)

lemma merge_mask_cluster_props:
  assumes "cluster \<noteq> []"
  shows "\<exists>r. merge_mask_cluster cluster = Some r
     \<and> list_all (\<lambda>m. covers (bbox r) (bbox m)) cluster
     \<and> (\<forall>B. list_all (\<lambda>m. covers B (bbox m)) cluster \<longrightarrow> covers B (bbox r))
     \<and> area r = sum_list (map area cluster)
     \<and> (list_all (\<lambda>m. 0 \<le> area m) cluster \<longrightarrow> list_all (\<lambda>m. area m \<le> area r) cluster)
     \<and> stability_score r = sum_list (map stability_score cluster) / real (length cluster)
     \<and> predicted_iou r = sum_list (map predicted_iou cluster) / real (length cluster)"
proof -
  define mnx where "mnx = Min (bbox0 ` set cluster)"
  define mny where "mny = Min (bbox1 ` set cluster)"
  define mxx where "mxx = Max ((\<lambda>m. bbox0 m + bbox2 m) ` set cluster)"
  define mxy where "mxy = Max ((\<lambda>m. bbox1 m + bbox3 m) ` set cluster)"
  define r where "r = oracle_mask (mnx, mny, mxx - mnx, mxy - mny) (sum_list (map area cluster))
       (sum_list (map stability_score cluster) / real (length cluster))
       (sum_list (map predicted_iou cluster) / real (length cluster))"
  have fin: "finite (f ` set cluster)" and ne: "f ` set cluster \<noteq> {}" for f :: "region \<Rightarrow> int"
    using assms by simp_all
  have m: "merge_mask_cluster cluster = Some r"
    using assms by (simp add: merge_mask_cluster_def Let_def r_def mnx_def mny_def mxx_def mxy_def)
  have b: "bbox r = (mnx, mny, mxx - mnx, mxy - mny)"
    by (simp add: r_def oracle_mask_def)
  have c: "covers (bbox r) (bbox m)" if "m \<in> set cluster" for m
  proof -
    have "mnx \<le> bbox0 m" "mny \<le> bbox1 m" "bbox0 m + bbox2 m \<le> mxx" "bbox1 m + bbox3 m \<le> mxy"
      unfolding mnx_def mny_def mxx_def mxy_def using that fin
      by (auto intro!: Min_le Max_ge)
    then show ?thesis by (simp add: b covers_bbox)
  qed
  have l: "covers B (bbox r)" if all: "list_all (\<lambda>m. covers B (bbox m)) cluster" for B
  proof -
    obtain X Y W H where B: "B = (X, Y, W, H)" by (cases B)
    from all have each: "X \<le> bbox0 m \<and> Y \<le> bbox1 m \<and> bbox0 m + bbox2 m \<le> X + W
        \<and> bbox1 m + bbox3 m \<le> Y + H" if "m \<in> set cluster" for m
      using that by (auto simp: list_all_iff B covers_bbox)
    have "X \<le> mnx" unfolding mnx_def using each by (simp add: Min_ge_iff [OF fin ne])
    moreover have "Y \<le> mny" unfolding mny_def using each by (simp add: Min_ge_iff [OF fin ne])
    moreover have "mxx \<le> X + W" unfolding mxx_def using each by (simp add: Max_le_iff [OF fin ne])
    moreover have "mxy \<le> Y + H" unfolding mxy_def using each by (simp add: Max_le_iff [OF fin ne])
    ultimately show ?thesis by (simp add: b B covers_def)
  qed
  have a: "area r = sum_list (map area cluster)"
    and s: "stability_score r = sum_list (map stability_score cluster) / real (length cluster)"
    and p: "predicted_iou r = sum_list (map predicted_iou cluster) / real (length cluster)"
    by (simp_all add: r_def oracle_mask_def)
  have g: "list_all (\<lambda>m. area m \<le> area r) cluster" if "list_all (\<lambda>m. 0 \<le> area m) cluster"
    using area_le_sum_list [OF that] by (simp add: a list_all_iff)
  from m c l a s p g show ?thesis by (auto simp: list_all_iff)
qed

lemma merge_nearby_masks_member:
  assumes "2 \<le> length masks" and "cid \<in> set (dbscan eps (map center masks))"
    and "length (cluster_members masks (dbscan eps (map center masks)) cid) \<noteq> 1"
    and "merge_mask_cluster (cluster_members masks (dbscan eps (map center masks)) cid) = Some r"
  shows "r \<in> set (merge_nearby_masks dbscan masks eps)"
  using assms by (auto simp: merge_nearby_masks_def Let_def intro!: bexI [where x = cid])

lemmas fragment_defs = left_fragment_def right_fragment_def oracle_mask_def

text \<open>
  For every cluster of more than one region that \<open>merge_nearby_masks\<close> collects for a label
  of the clustering, the output holds one synthesized region: its box covers every member
  box and is covered by every box that covers them all; its area is the sum of the member
  areas, hence at least each member area when these are not negative; its stability score
  and predicted IoU are the arithmetic means over the members.
\<close>

lemma merge_nearby_masks_cluster:
  assumes "2 \<le> length masks"
    and "cid \<in> set (dbscan eps (map center masks))"
    and "cluster = cluster_members masks (dbscan eps (map center masks)) cid"
    and "1 < length cluster"
  shows "\<exists>r. merge_mask_cluster cluster = Some r
     \<and> r \<in> set (merge_nearby_masks dbscan masks eps)
     \<and> list_all (\<lambda>m. covers (bbox r) (bbox m)) cluster
     \<and> (\<forall>B. list_all (\<lambda>m. covers B (bbox m)) cluster \<longrightarrow> covers B (bbox r))
     \<and> area r = sum_list (map area cluster)
     \<and> (list_all (\<lambda>m. 0 \<le> area m) cluster \<longrightarrow> list_all (\<lambda>m. area m \<le> area r) cluster)
     \<and> stability_score r = sum_list (map stability_score cluster) / real (length cluster)
     \<and> predicted_iou r = sum_list (map predicted_iou cluster) / real (length cluster)"
proof -
  from assms(4) have ne: "cluster \<noteq> []" and n1: "length cluster \<noteq> 1" by auto
  from merge_mask_cluster_props [OF ne] obtain r where r: "merge_mask_cluster cluster = Some r
     \<and> list_all (\<lambda>m. covers (bbox r) (bbox m)) cluster
     \<and> (\<forall>B. list_all (\<lambda>m. covers B (bbox m)) cluster \<longrightarrow> covers B (bbox r))
     \<and> area r = sum_list (map area cluster)
     \<and> (list_all (\<lambda>m. 0 \<le> area m) cluster \<longrightarrow> list_all (\<lambda>m. area m \<le> area r) cluster)
     \<and> stability_score r = sum_list (map stability_score cluster) / real (length cluster)
     \<and> predicted_iou r = sum_list (map predicted_iou cluster) / real (length cluster)"
    by blast
  then have "merge_mask_cluster cluster = Some r" by blast
  with merge_nearby_masks_member
      [where dbscan = dbscan and eps = eps and masks = masks and cid = cid and r = r]
    assms(1,2) n1
  have "r \<in> set (merge_nearby_masks dbscan masks eps)"
    unfolding assms(3) by blast
  with r show ?thesis by blast
qed

text \<open>
  Claim C5. The box, the area and the two means of the synthesized region are as claimed
  (\<open>merge_nearby_masks_cluster\<close>), the member count is not: \<open>merge_mask_cluster\<close> returns a
  dictionary without the key \<open>original_count\<close>, so the region synthesized for a cluster of
  two members carries no count, while \<open>merge_bottom_info_regions\<close>, which merges the same
  way, stores \<open>'original_count': len(bottom_masks)\<close> on the same two members.
\<close>

theorem proximity_merger_count_missing:
  "cluster_members [left_fragment, right_fragment]
      (one_cluster 100 (map center [left_fragment, right_fragment])) 0
     = [left_fragment, right_fragment]
   \<and> merge_nearby_masks one_cluster [left_fragment, right_fragment] 100
     = [oracle_mask (100, 100, 50, 40) 800 0.75 0.8125]
   \<and> map original_count (merge_nearby_masks one_cluster [left_fragment, right_fragment] 100)
     = [None]
   \<and> map_option original_count (merge_bottom_info_regions [left_fragment, right_fragment] 1000 1000)
     = Some (Some 2)"
proof -
  have "cluster_members [left_fragment, right_fragment]
      (one_cluster 100 (map center [left_fragment, right_fragment])) 0
     = [left_fragment, right_fragment]"
    by (simp add: cluster_members_def one_cluster_def)
  moreover have m: "merge_nearby_masks one_cluster [left_fragment, right_fragment] 100
     = [oracle_mask (100, 100, 50, 40) 800 0.75 0.8125]"
    by (simp add: merge_nearby_masks_def cluster_members_def one_cluster_def
        merge_mask_cluster_def Let_def bbox0_def bbox1_def bbox2_def bbox3_def fragment_defs)
  moreover have "map original_count
      (merge_nearby_masks one_cluster [left_fragment, right_fragment] 100) = [None]"
    unfolding m by (simp add: oracle_mask_def)
  moreover have "map_option original_count
      (merge_bottom_info_regions [left_fragment, right_fragment] 1000 1000) = Some (Some 2)"
    by (simp add: merge_bottom_info_regions_def Let_def)
  ultimately show ?thesis by simp
qed

subsection \<open>Zone flags through the stages\<close>







lemma compare_with_kept_subset:
  assumes "compare_with_kept thr c fm ks = Inr (fm', keep)"
  shows "set fm' \<subseteq> set fm"
  using assms
proof (induction ks)
  case Nil
  then show ?case by simp
next
  case (Cons k ks)
  from Cons.prems obtain cik where cik: "is_bbox_inside_default (bbox c) (bbox k) = Inr cik"
    by (cases "is_bbox_inside_default (bbox c) (bbox k)") (simp_all add: Let_def)
  from Cons.prems cik obtain kic where kic: "is_bbox_inside_default (bbox k) (bbox c) = Inr kic"
    by (cases "is_bbox_inside_default (bbox k) (bbox c)") (simp_all add: Let_def)
  show ?case
  proof (cases "thr < calculate_overlap (bbox c) (bbox k) \<or> cik")
    case True
    with Cons.prems cik kic have "fm' = fm" by (simp add: Let_def)
    then show ?thesis by simp
  next
    case False
    show ?thesis
    proof (cases kic)
      case True
      with False Cons.prems cik kic have "fm' = remove1 k fm" by (simp add: Let_def)
      then show ?thesis using set_remove1_subset [of k fm] by simp
    next
      case nk: False
      with False Cons.prems cik kic
      have "compare_with_kept thr c fm ks = Inr (fm', keep)" by (simp add: Let_def)
      then show ?thesis by (rule Cons.IH)
    qed
  qed
qed

lemma dedup_loop_subset:
  assumes "dedup_loop thr fm cs = Inr out"
  shows "set out \<subseteq> set fm \<union> set cs"
  using assms
proof (induction cs arbitrary: fm)
  case Nil
  then show ?case by simp
next
  case (Cons c cs)
  from Cons.prems obtain kept keep where
    k: "compare_with_kept thr c fm fm = Inr (kept, keep)"
    and l: "dedup_loop thr (if keep then kept @ [c] else kept) cs = Inr out"
    by (auto split: sum.splits)
  from Cons.IH [OF l] compare_with_kept_subset [OF k] show ?case
    by (auto split: if_splits)
qed

lemma remove_duplicate_masks_subset:
  assumes "remove_duplicate_masks ms thr = Inr out"
  shows "set out \<subseteq> set ms"
proof (cases "ms = []")
  case True
  with assms show ?thesis by (simp add: remove_duplicate_masks_def)
next
  case False
  with assms have "dedup_loop thr [] (masks_sorted ms) = Inr out"
    by (simp add: remove_duplicate_masks_def)
  from dedup_loop_subset [OF this] show ?thesis by (simp add: masks_sorted_def)
qed











subsection \<open>The protected bottom region\<close>

lemma filter_mask_total:
  assumes "h * w \<noteq> 0"
  shows "filter_mask h w m = Inr None \<or> filter_mask h w m = Inr (Some (tag_zone h w m))"
proof -
  obtain x y width height where b: "bbox m = (x, y, width, height)" by (cases "bbox m")
  from assms show ?thesis unfolding filter_mask_checks [OF b] by simp
qed

lemma filter_loop_total:
  assumes "h * w \<noteq> 0"
  shows "\<exists>out. filter_loop h w acc ms = Inr out
           \<and> set out \<subseteq> set acc \<union> tag_zone h w ` set ms"
proof (induction ms arbitrary: acc)
  case Nil
  show ?case by simp
next
  case (Cons m ms)
  from filter_mask_total [OF assms, of m] show ?case
  proof
    assume n: "filter_mask h w m = Inr None"
    from Cons.IH [of acc] obtain out where "filter_loop h w acc ms = Inr out"
      "set out \<subseteq> set acc \<union> tag_zone h w ` set ms" by blast
    with n show ?thesis by auto
  next
    assume s: "filter_mask h w m = Inr (Some (tag_zone h w m))"
    from Cons.IH [of "acc @ [tag_zone h w m]"] obtain out
      where "filter_loop h w (acc @ [tag_zone h w m]) ms = Inr out"
        "set out \<subseteq> set (acc @ [tag_zone h w m]) \<union> tag_zone h w ` set ms" by blast
    with s show ?thesis by auto
  qed
qed

lemma tag_zone_fields:
  "bbox (tag_zone h w m) = bbox m" "is_protected (tag_zone h w m) = is_protected m"
  by (simp_all add: tag_zone_def)

lemma merge_mask_cluster_unprotected:
  "merge_mask_cluster c = Some r \<Longrightarrow> \<not> is_protected r"
  by (auto simp: merge_mask_cluster_def Let_def oracle_mask_def split: if_splits)

lemma set_cluster_members: "set (cluster_members masks labels cid) \<subseteq> set masks"
  by (auto simp: cluster_members_def dest: set_zip_leftD)

lemma merge_nearby_masks_unprotected:
  assumes "list_all (\<lambda>m. \<not> is_protected m) masks"
  shows "list_all (\<lambda>m. \<not> is_protected m) (merge_nearby_masks dbscan masks eps)"
proof (cases "length masks < 2")
  case True
  with assms show ?thesis by (simp add: merge_nearby_masks_def)
next
  case False
  have one: "\<not> is_protected (hd c)" if "length c = 1" "set c \<subseteq> set masks" for c
  proof -
    from that(1) have "hd c \<in> set c" by (cases c) simp_all
    with that(2) assms show ?thesis by (auto simp: list_all_iff)
  qed
  show ?thesis
    using False one set_cluster_members merge_mask_cluster_unprotected
    by (auto simp: merge_nearby_masks_def Let_def list_all_iff split: option.splits if_splits)
qed

lemma detect_info_regions_total:
  assumes "height * width \<noteq> 0"
  shows "\<exists>info. detect_info_regions height width masks = Inr info
           \<and> (list_all (\<lambda>m. \<not> is_protected m) masks
                \<longrightarrow> list_all (\<lambda>m. \<not> is_protected m) info)"
  using assms
  by (auto simp: detect_info_regions_def merge_bottom_info_regions_def Let_def list_all_iff
        split: option.splits if_splits)

lemma py_int_floor: "0 \<le> h \<Longrightarrow> py_int (real_of_int h * 0.8) = \<lfloor>0.8 * real_of_int h\<rfloor>"
  by (simp add: py_int_def mult.commute)

text \<open>
  Claim C4 (as amended). For an image of positive height \<open>h\<close> and width \<open>w\<close> and every
  non-empty list of proposals with boxes of positive width and height, whatever the
  clustering, \<open>split_image\<close> reaches the injection without raising and \<open>info_masks\<close> then
  ends with the one synthetic protected region: no other entry is flagged
  \<open>is_protected\<close>, and the region has the box \<open>(0, floor(0.8 h), w, h - floor(0.8 h))\<close>,
  stability score and predicted IoU 0.95 and the info types \<open>bottom_info\<close> and
  \<open>protected_region\<close>.
\<close>

theorem protected_bottom_region_injected:
  assumes "proposals \<noteq> []" and "0 < h" and "0 < w"
    and "list_all (\<lambda>p. positive_box (fst p)) proposals"
  shows "\<exists>info_masks.
           split_image_info_masks dbscan h w (map from_oracle proposals)
             = Inr (Some (info_masks @ [create_bottom_info_region h w]))
           \<and> list_all (\<lambda>m. \<not> is_protected m) info_masks
           \<and> create_bottom_info_region h w =
               \<lparr>bbox = (0, \<lfloor>0.8 * real_of_int h\<rfloor>, w, h - \<lfloor>0.8 * real_of_int h\<rfloor>),
                area = w * (h - \<lfloor>0.8 * real_of_int h\<rfloor>),
                stability_score = 0.95, predicted_iou = 0.95,
                is_info_region = True,
                info_type = [''bottom_info'', ''protected_region''],
                is_protected = True, is_merged = False, original_count = None,
                is_bottom_protected = False, is_protected_text = False,
                priority_boost = None, text_optimized = False\<rparr>"
proof -
  let ?all = "map from_oracle proposals"
  from assms(2,3) have nz: "h * w \<noteq> 0" by simp
  have all: "\<forall>m\<in>set ?all. positive_box (bbox m) \<and> \<not> is_protected m"
    using assms(4) by (auto simp: list_all_iff from_oracle_def oracle_mask_def split: prod.splits)
  from filter_loop_total [OF nz, of "[]" ?all] obtain filtered
    where f: "filter_masks_by_engineering_criteria ?all h w = Inr filtered"
      and fs: "set filtered \<subseteq> tag_zone h w ` set ?all"
    unfolding filter_masks_by_engineering_criteria_def by auto
  from fs all have fp: "\<forall>m\<in>set filtered. positive_box (bbox m) \<and> \<not> is_protected m"
    by (auto simp: tag_zone_fields)
  then have pb: "positive_boxes filtered" by (simp add: positive_boxes_def list_all_iff)
  from remove_duplicate_masks_foldl [OF pb, of "0.3"] obtain unique
    where u: "remove_duplicate_masks filtered 0.3 = Inr unique" by blast
  from remove_duplicate_masks_subset [OF u] fp
  have up: "list_all (\<lambda>m. \<not> is_protected m) unique" by (auto simp: list_all_iff)
  let ?merged = "merge_nearby_masks dbscan unique 100"
  from merge_nearby_masks_unprotected [OF up]
  have mp: "list_all (\<lambda>m. \<not> is_protected m) ?merged" .
  from detect_info_regions_total [OF nz, of ?merged] mp obtain info
    where d: "detect_info_regions h w ?merged = Inr info"
      and ip: "list_all (\<lambda>m. \<not> is_protected m) info" by blast
  from assms(1) f u d
  have "split_image_info_masks dbscan h w ?all
          = Inr (Some (info @ [create_bottom_info_region h w]))"
    by (simp add: split_image_info_masks_def Let_def)
  moreover have pf: "py_int (real_of_int h * 0.8) = \<lfloor>0.8 * real_of_int h\<rfloor>"
    by (rule py_int_floor) (use assms(2) in simp)
  have "create_bottom_info_region h w =
               \<lparr>bbox = (0, \<lfloor>0.8 * real_of_int h\<rfloor>, w, h - \<lfloor>0.8 * real_of_int h\<rfloor>),
                area = w * (h - \<lfloor>0.8 * real_of_int h\<rfloor>),
                stability_score = 0.95, predicted_iou = 0.95,
                is_info_region = True,
                info_type = [''bottom_info'', ''protected_region''],
                is_protected = True, is_merged = False, original_count = None,
                is_bottom_protected = False, is_protected_text = False,
                priority_boost = None, text_optimized = False\<rparr>"
    unfolding create_bottom_info_region_def Let_def pf by (rule refl)
  ultimately show ?thesis using ip by blast
qed


theorem protected_bottom_region_injected_witness:
  "[((500, 500, 100, 100), 10000, 0.875, 0.875) :: proposal] \<noteq> []
   \<and> list_all (\<lambda>p. positive_box (fst p)) [((500, 500, 100, 100), 10000, 0.875, 0.875) :: proposal]
   \<and> split_image_info_masks one_cluster 1000 1000
        (map from_oracle [((500, 500, 100, 100), 10000, 0.875, 0.875)])
       = Inr (Some [far_view, create_bottom_info_region 1000 1000])
   \<and> \<not> is_protected far_view
   \<and> is_protected (create_bottom_info_region 1000 1000)
   \<and> bbox (create_bottom_info_region 1000 1000) = (0, 800, 1000, 200)"
proof -
  let ?ps = "[((500, 500, 100, 100), 10000, 0.875, 0.875) :: proposal]"
  have o: "map from_oracle ?ps = [far_view]"
    by (simp add: from_oracle_def far_view_def)
  have "filter_mask 1000 1000 far_view = Inr (Some far_view)"
    by (simp add: filter_mask_def Let_def far_view_def oracle_mask_def float_table)
  then have f: "filter_masks_by_engineering_criteria [far_view] 1000 1000 = Inr [far_view]"
    by (simp add: filter_masks_by_engineering_criteria_def)
  have d: "remove_duplicate_masks [far_view] 0.3 = Inr [far_view]"
    by (simp add: remove_duplicate_masks_def masks_sorted_def)
  have m: "merge_nearby_masks one_cluster [far_view] 100 = [far_view]"
    by (simp add: merge_nearby_masks_def)
  have "detect_zone 1000 1000 far_view = Other"
    by (simp add: detect_zone_def Let_def py_int_def far_view_def oracle_mask_def)
  moreover have "\<not> is_info_region far_view" by (simp add: far_view_def oracle_mask_def)
  ultimately have z: "detect_info_regions 1000 1000 [far_view] = Inr [far_view]"
    by (simp add: detect_info_regions_def merge_bottom_info_regions_def Let_def)
  have e: "split_image_info_masks one_cluster 1000 1000 (map from_oracle ?ps)
             = Inr (Some [far_view, create_bottom_info_region 1000 1000])"
    unfolding o by (simp add: split_image_info_masks_def Let_def f d m z)
  have p: "list_all (\<lambda>p. positive_box (fst p)) ?ps" by (simp add: positive_box_def)
  have n: "?ps \<noteq> []" by simp
  from protected_bottom_region_injected
         [where dbscan = one_cluster and h = 1000 and w = 1000 and proposals = ?ps, OF n _ _ p]
  obtain info where i: "split_image_info_masks one_cluster 1000 1000 (map from_oracle ?ps)
             = Inr (Some (info @ [create_bottom_info_region 1000 1000]))"
    and u: "list_all (\<lambda>m. \<not> is_protected m) info"
    and c: "create_bottom_info_region 1000 1000 =
               \<lparr>bbox = (0, \<lfloor>0.8 * real_of_int 1000\<rfloor>, 1000, 1000 - \<lfloor>0.8 * real_of_int 1000\<rfloor>),
                area = 1000 * (1000 - \<lfloor>0.8 * real_of_int 1000\<rfloor>),
                stability_score = 0.95, predicted_iou = 0.95,
                is_info_region = True,
                info_type = [''bottom_info'', ''protected_region''],
                is_protected = True, is_merged = False, original_count = None,
                is_bottom_protected = False, is_protected_text = False,
                priority_boost = None, text_optimized = False\<rparr>"
    by auto
  from i e have "info = [far_view]" by simp
  with u have "\<not> is_protected far_view" by simp
  moreover from c have "is_protected (create_bottom_info_region 1000 1000)"
    and "bbox (create_bottom_info_region 1000 1000) = (0, 800, 1000, 200)"
    by simp_all
  ultimately show ?thesis using e p by simp
qed

text \<open>
  The claim as stated fails when the oracle produced no region: \<open>split_image\<close> returns
  early and nothing is injected.
\<close>

theorem protected_bottom_region_counterexample:
  "split_image_info_masks one_cluster 1000 1000 (map from_oracle []) = Inr None"
  by (simp add: split_image_info_masks_def)

end
